theory Spec2Isabelle
  imports Complex_Main "HOL-Library.Multiset"
begin

section \<open>Python values used by \<open>data_prepare.py\<close>\<close>

text \<open>
  The exceptions the module can raise, as values. \<open>OSError\<close> stands for whatever the
  operating system reports (\<open>FileNotFoundError\<close>, \<open>NotADirectoryError\<close>,
  \<open>PermissionError\<close>); \<open>AudioReadError\<close> for a failure inside \<open>read_audio\<close>.
\<close>

datatype py_error = IndexError | KeyError | ZeroDivisionError | OSError | AudioReadError

text \<open>
  A slice \<open>xs[0:n]\<close> with an integer stop: a negative stop counts from the end, and
  the stop is clamped to the list. \<open>del xs[0:n]\<close> removes the same range.
\<close>

definition slice_stop :: "nat \<Rightarrow> int \<Rightarrow> nat" where
  "slice_stop len n = (if n < 0 then nat (max 0 (int len + n)) else min len (nat n))"

definition py_slice0 :: "'a list \<Rightarrow> int \<Rightarrow> 'a list" where
  "py_slice0 xs n = take (slice_stop (length xs) n) xs"

definition py_del0 :: "'a list \<Rightarrow> int \<Rightarrow> 'a list" where
  "py_del0 xs n = drop (slice_stop (length xs) n) xs"

text \<open>
  \<open>s.split(sep)\<close> with an explicit one-character separator, scanning from the left
  with the current piece in \<open>cur\<close>: never an empty list.
\<close>

fun split_from :: "char \<Rightarrow> string \<Rightarrow> string \<Rightarrow> string list" where
  "split_from c cur [] = [cur]"
| "split_from c cur (x # xs) =
     (if x = c then cur # split_from c [] xs else split_from c (cur @ [x]) xs)"

definition split_sep :: "char \<Rightarrow> string \<Rightarrow> string list" where
  "split_sep c s = split_from c [] s"

text \<open>
  \<open>int(a / b)\<close> on two integers: the true quotient, truncated towards zero. Python
  computes the quotient as a correctly rounded double; for \<open>\<bar>a\<bar> + \<bar>b\<bar> < 2^53\<close> the
  rounding never crosses an integer, and the model is the exact value.
\<close>

definition trunc_quot :: "int \<Rightarrow> int \<Rightarrow> int" where
  "trunc_quot a b = sgn a * sgn b * (\<bar>a\<bar> div \<bar>b\<bar>)"

definition int_truediv :: "int \<Rightarrow> int \<Rightarrow> py_error + int" where
  "int_truediv a b = (if b = 0 then Inl ZeroDivisionError else Inr (trunc_quot a b))"

text \<open>
  A \<open>dict\<close> keeps its keys in insertion order: an association list. Assigning to a key
  that is present replaces the value where the key stands; a new key goes to the end.
\<close>

type_synonym ('k, 'v) dict = "('k \<times> 'v) list"

fun dict_set :: "('k, 'v) dict \<Rightarrow> 'k \<Rightarrow> 'v \<Rightarrow> ('k, 'v) dict" where
  "dict_set [] k v = [(k, v)]"
| "dict_set ((k', v') # d) k v =
     (if k' = k then (k', v) # d else (k', v') # dict_set d k v)"

definition dict_keys :: "('k, 'v) dict \<Rightarrow> 'k list" where
  "dict_keys d = map fst d"

text \<open>
  Strings are lists of characters; a character stands for a code point below 256.
  \<open>str.isspace\<close> on that range.
\<close>

definition isspace :: "char \<Rightarrow> bool" where
  "isspace c = ((of_char c :: nat) \<in> {9, 10, 11, 12, 13, 28, 29, 30, 31, 32, 133, 160})"

definition py_strip :: "string \<Rightarrow> string" where
  "py_strip s = rev (dropWhile isspace (rev (dropWhile isspace s)))"

text \<open>\<open>s.split()\<close> without a separator: the maximal runs of non-whitespace.\<close>

function py_split :: "string \<Rightarrow> string list" where
  "py_split [] = []"
| "py_split (c # cs) =
     (if isspace c then py_split cs
      else (c # takeWhile (\<lambda>x. \<not> isspace x) cs) # py_split (dropWhile (\<lambda>x. \<not> isspace x) cs))"
  by pat_completeness auto
termination
  by (relation "measure length") (auto simp: length_dropWhile_le le_imp_less_Suc)

text \<open>
  \<open>os.path.join\<close>, modelled from \<open>posixpath.join\<close> for two components, and
  \<open>s.replace("\\", "/")\<close>.
\<close>

definition path_join :: "string \<Rightarrow> string \<Rightarrow> string" where
  "path_join a b =
     (if b \<noteq> [] \<and> hd b = CHR ''/'' then b
      else if a = [] \<or> last a = CHR ''/'' then a @ b
      else a @ CHR ''/'' # b)"

definition replace_backslash :: "string \<Rightarrow> string" where
  "replace_backslash s = map (\<lambda>c. if c = CHR 0x5C then CHR ''/'' else c) s"

section \<open>The environment\<close>

text \<open>
  What the module reads from outside: directory listings (\<open>os.listdir\<close>), the lines a
  text file yields when iterated, the audio files, and whether a path can be opened for
  writing. An audio file has a number of sample frames and the sample rate of its header;
  \<open>read_audio\<close> returns the signal only, whose \<open>shape[0]\<close> is the number of frames.
\<close>

record audio_file =
  frames :: nat
  header_rate :: nat

record env =
  listdir :: "string \<Rightarrow> py_error + string list"
  read_lines :: "string \<Rightarrow> py_error + string list"
  audio :: "string \<Rightarrow> py_error + audio_file"
  open_w :: "string \<Rightarrow> py_error option"

definition read_audio :: "env \<Rightarrow> string \<Rightarrow> py_error + nat" where
  "read_audio e wav_file =
     (case audio e wav_file of Inl err \<Rightarrow> Inl err | Inr a \<Rightarrow> Inr (frames a))"

section \<open>The pseudo-random generator\<close>

text \<open>
  The \<open>random\<close> module keeps one generator state for the process. \<open>random.seed(n)\<close>
  replaces the state by one computed from \<open>n\<close> alone; \<open>random.shuffle(x)\<close> walks
  \<open>i\<close> from \<open>len(x) - 1\<close> down to 1, draws \<open>j = randbelow(i + 1)\<close> and swaps
  \<open>x[i]\<close> and \<open>x[j]\<close>. The generator itself is a parameter: \<open>rb g n\<close> is the draw
  below \<open>n\<close> in state \<open>g\<close>, with the next state.
\<close>

definition randbelow_ok :: "('g \<Rightarrow> nat \<Rightarrow> nat \<times> 'g) \<Rightarrow> bool" where
  "randbelow_ok rb = (\<forall>g n. 0 < n \<longrightarrow> fst (rb g n) < n)"

fun shuffle_from :: "('g \<Rightarrow> nat \<Rightarrow> nat \<times> 'g) \<Rightarrow> nat \<Rightarrow> 'a list \<Rightarrow> 'g \<Rightarrow> 'a list \<times> 'g" where
  "shuffle_from rb 0 x g = (x, g)"
| "shuffle_from rb (Suc m) x g =
     (case rb g (Suc (Suc m)) of
        (j, g') \<Rightarrow> shuffle_from rb m (x[Suc m := x ! j, j := x ! Suc m]) g')"

definition shuffle :: "('g \<Rightarrow> nat \<Rightarrow> nat \<times> 'g) \<Rightarrow> 'a list \<Rightarrow> 'g \<Rightarrow> 'a list \<times> 'g" where
  "shuffle rb x g = shuffle_from rb (length x - 1) x g"

text \<open>
  A small linear congruential generator, to run the model on concrete inputs.
\<close>

definition lcg_randbelow :: "int \<Rightarrow> nat \<Rightarrow> nat \<times> int" where
  "lcg_randbelow g n =
     (let g' = (g * 1103515245 + 12345) mod 2147483648 in (nat (g' mod int n), g'))"

definition lcg_seed :: "int \<Rightarrow> int" where
  "lcg_seed n = \<bar>n\<bar>"

section \<open>The metadata loader\<close>

text \<open>
  \<open>load_in4\<close>: every line is stripped and split; \<open>text_in4[0]\<close>, \<open>[1]\<close>, \<open>[2]\<close> raise
  \<open>IndexError\<close> on a shorter list.
\<close>

type_synonym row = "string \<times> string \<times> string"

fun load_rows :: "row list \<Rightarrow> string list \<Rightarrow> py_error + row list" where
  "load_rows List_in4 [] = Inr List_in4"
| "load_rows List_in4 (i # f) =
     (let text_in4 = py_split (py_strip i) in
      if length text_in4 < 3 then Inl IndexError
      else load_rows (List_in4 @ [(text_in4 ! 0, text_in4 ! 1, text_in4 ! 2)]) f)"

definition load_in4 :: "env \<Rightarrow> string \<Rightarrow> py_error + row list" where
  "load_in4 e path_txt_info =
     (case read_lines e path_txt_info of Inl err \<Rightarrow> Inl err | Inr f \<Rightarrow> load_rows [] f)"

section \<open>The matcher\<close>

text \<open>A record is the list \<open>[path_wav, regions, Sex]\<close>.\<close>

datatype wav_info = WavInfo (wav_path: string) (wav_regions: string) (wav_sex: string)

definition make_info :: "string \<Rightarrow> row \<Rightarrow> string \<Rightarrow> wav_info" where
  "make_info path_to_dataWav r wav_name =
     (case r of (id_speaker, regions, Sex) \<Rightarrow>
        WavInfo (replace_backslash
                   (path_join (path_join path_to_dataWav id_speaker) wav_name))
                regions Sex)"

text \<open>The loop over the entries of the audio root, for one metadata row.\<close>

fun match_entries ::
  "env \<Rightarrow> string \<Rightarrow> row \<Rightarrow> wav_info list \<Rightarrow> string list \<Rightarrow> py_error + wav_info list" where
  "match_entries e path_to_dataWav r infor_wav [] = Inr infor_wav"
| "match_entries e path_to_dataWav r infor_wav (i # entries) =
     (if i = fst r then
        (case listdir e (path_join path_to_dataWav (fst r)) of
           Inl err \<Rightarrow> Inl err
         | Inr names \<Rightarrow>
             match_entries e path_to_dataWav r (infor_wav @ map (make_info path_to_dataWav r) names) entries)
      else match_entries e path_to_dataWav r infor_wav entries)"

text \<open>The loop over the metadata rows; the audio root is listed again for every row.\<close>

fun match_rows ::
  "env \<Rightarrow> string \<Rightarrow> wav_info list \<Rightarrow> row list \<Rightarrow> py_error + wav_info list" where
  "match_rows e path_to_dataWav infor_wav [] = Inr infor_wav"
| "match_rows e path_to_dataWav infor_wav (r # rows) =
     (case listdir e path_to_dataWav of
        Inl err \<Rightarrow> Inl err
      | Inr entries \<Rightarrow>
          (case match_entries e path_to_dataWav r infor_wav entries of
             Inl err \<Rightarrow> Inl err
           | Inr infor_wav' \<Rightarrow> match_rows e path_to_dataWav infor_wav' rows))"

text \<open>
  The re-indexing loop: \<open>data_dict[idx]\<close> is created empty when absent, then the record
  is appended to it.
\<close>

definition index_step ::
  "'a list \<Rightarrow> (nat, 'a list) dict \<Rightarrow> nat \<Rightarrow> (nat, 'a list) dict" where
  "index_step infor_wav data_dict idx =
     (let d = (if idx \<notin> set (dict_keys data_dict) then dict_set data_dict idx [] else data_dict)
      in case map_of d idx of
           Some l \<Rightarrow> dict_set d idx (l @ [infor_wav ! idx])
         | None \<Rightarrow> d)"

fun index_loop :: "'a list \<Rightarrow> (nat, 'a list) dict \<Rightarrow> nat list \<Rightarrow> (nat, 'a list) dict" where
  "index_loop infor_wav data_dict [] = data_dict"
| "index_loop infor_wav data_dict (idx # rest) =
     index_loop infor_wav (index_step infor_wav data_dict idx) rest"

definition transform_data ::
  "env \<Rightarrow> string \<Rightarrow> string \<Rightarrow> py_error + (nat, wav_info list) dict" where
  "transform_data e path_to_dataWav path_txt_info =
     (case load_in4 e path_txt_info of
        Inl err \<Rightarrow> Inl err
      | Inr rows \<Rightarrow>
          (case match_rows e path_to_dataWav [] rows of
             Inl err \<Rightarrow> Inl err
           | Inr infor_wav \<Rightarrow> Inr (index_loop infor_wav [] [0..<length infor_wav])))"

section \<open>The splitter\<close>

record 'a data_split =
  train :: "'a list"
  valid :: "'a list"
  test :: "'a list"

text \<open>\<open>wav_list.append(data_dict[key][0])\<close> for every key.\<close>

fun collect :: "('k, 'a list) dict \<Rightarrow> 'a list \<Rightarrow> 'k list \<Rightarrow> py_error + 'a list" where
  "collect data_dict wav_list [] = Inr wav_list"
| "collect data_dict wav_list (key # keys) =
     (case map_of data_dict key of
        None \<Rightarrow> Inl KeyError
      | Some [] \<Rightarrow> Inl IndexError
      | Some (r # _) \<Rightarrow> collect data_dict (wav_list @ [r]) keys)"

text \<open>
  One round of the loop over \<open>["train", "valid"]\<close>: the slice taken and the list left.
  \<open>tot_snts\<close> is the length before the loop; the slice works on the list as it is now.
\<close>

definition take_split ::
  "int list \<Rightarrow> int \<Rightarrow> nat \<Rightarrow> nat \<Rightarrow> 'a list \<Rightarrow> py_error + ('a list \<times> 'a list)" where
  "take_split split_ratio tot_split tot_snts i wav_list =
     (if length split_ratio \<le> i then Inl IndexError
      else case int_truediv (int tot_snts * split_ratio ! i) tot_split of
             Inl err \<Rightarrow> Inl err
           | Inr n_snts \<Rightarrow> Inr (py_slice0 wav_list n_snts, py_del0 wav_list n_snts))"

definition split_list :: "int list \<Rightarrow> 'a list \<Rightarrow> py_error + 'a data_split" where
  "split_list split_ratio wav_list =
     (let tot_split = sum_list split_ratio; tot_snts = length wav_list in
      case take_split split_ratio tot_split tot_snts 0 wav_list of
        Inl err \<Rightarrow> Inl err
      | Inr (tr, wav_list1) \<Rightarrow>
          (case take_split split_ratio tot_split tot_snts 1 wav_list1 of
             Inl err \<Rightarrow> Inl err
           | Inr (va, wav_list2) \<Rightarrow> Inr \<lparr>train = tr, valid = va, test = wav_list2\<rparr>))"

text \<open>
  \<open>split_sets\<close>, with the generator state passed in and out. The state is returned
  also when the function raises: the shuffle has drawn from it by then.
\<close>

definition split_sets ::
  "('g \<Rightarrow> nat \<Rightarrow> nat \<times> 'g) \<Rightarrow> 'g \<Rightarrow> ('k, 'a list) dict \<Rightarrow> int list
     \<Rightarrow> (py_error + 'a data_split) \<times> 'g" where
  "split_sets rb g data_dict split_ratio =
     (case collect data_dict [] (dict_keys data_dict) of
        Inl err \<Rightarrow> (Inl err, g)
      | Inr wav_list \<Rightarrow>
          (case shuffle rb wav_list g of
             (shuffled, g') \<Rightarrow> (split_list split_ratio shuffled, g')))"

section \<open>The manifest writer\<close>

definition SAMPLERATE :: nat where
  "SAMPLERATE = 16000"

text \<open>Line 97: \<open>uttid = wav_file.split("/")[-1][:-4]\<close>.\<close>

definition filename :: "string \<Rightarrow> string" where
  "filename wav_file = last (split_sep CHR ''/'' wav_file)"

definition uttid :: "string \<Rightarrow> string" where
  "uttid wav_file = py_slice0 (filename wav_file) (- 4)"

text \<open>
  An entry of the manifest. \<open>length\<close> is \<open>signal.shape[0] / SAMPLERATE\<close>, a double in
  Python; the model keeps the exact quotient.
\<close>

record manifest_entry =
  wav :: string
  length_s :: rat
  regions :: string

definition make_entry :: "wav_info \<Rightarrow> nat \<Rightarrow> manifest_entry" where
  "make_entry obj n =
     \<lparr>wav = wav_path obj, length_s = of_nat n / of_nat SAMPLERATE, regions = wav_regions obj\<rparr>"

fun create_entries ::
  "env \<Rightarrow> (string, manifest_entry) dict \<Rightarrow> wav_info list
     \<Rightarrow> py_error + (string, manifest_entry) dict" where
  "create_entries e json_dict [] = Inr json_dict"
| "create_entries e json_dict (obj # wav_list) =
     (case read_audio e (wav_path obj) of
        Inl err \<Rightarrow> Inl err
      | Inr n \<Rightarrow>
          create_entries e (dict_set json_dict (uttid (wav_path obj)) (make_entry obj n))
            wav_list)"

text \<open>
  \<open>create_json\<close>: the dictionary is built first, then the file is opened for writing and
  the dictionary dumped. The written files are a map from path to the dictionary dumped.
\<close>

type_synonym files = "string \<rightharpoonup> (string, manifest_entry) dict"

definition create_json ::
  "env \<Rightarrow> files \<Rightarrow> wav_info list \<Rightarrow> string \<Rightarrow> (py_error + unit) \<times> files" where
  "create_json e fs wav_list json_file_save =
     (case create_entries e [] wav_list of
        Inl err \<Rightarrow> (Inl err, fs)
      | Inr json_dict \<Rightarrow>
          (case open_w e json_file_save of
             Some err \<Rightarrow> (Inl err, fs)
           | None \<Rightarrow> (Inr (), fs(json_file_save \<mapsto> json_dict))))"

section \<open>The pipeline\<close>

text \<open>
  \<open>prepare_data\<close>. \<open>g\<close> is the state of the generator when the function is entered,
  \<open>seed_state\<close> what \<open>random.seed\<close> computes. The result is the error raised (if any),
  the generator state and the files written.
\<close>

definition prepare_data ::
  "('g \<Rightarrow> nat \<Rightarrow> nat \<times> 'g) \<Rightarrow> (int \<Rightarrow> 'g) \<Rightarrow> env \<Rightarrow> 'g \<Rightarrow> files
     \<Rightarrow> string \<Rightarrow> string \<Rightarrow> string \<Rightarrow> string \<Rightarrow> string \<Rightarrow> int list \<Rightarrow> int
     \<Rightarrow> (py_error + unit) \<times> 'g \<times> files" where
  "prepare_data rb seed_state e g fs data_original path_txt_info
       save_json_train save_json_valid save_json_test split_ratio seed =
     (let g0 = seed_state seed in
      case transform_data e data_original path_txt_info of
        Inl err \<Rightarrow> (Inl err, g0, fs)
      | Inr info_dict \<Rightarrow>
          (case split_sets rb g0 info_dict split_ratio of
             (Inl err, g1) \<Rightarrow> (Inl err, g1, fs)
           | (Inr data_split, g1) \<Rightarrow>
               (case create_json e fs (train data_split) save_json_train of
                  (Inl err, fs1) \<Rightarrow> (Inl err, g1, fs1)
                | (Inr _, fs1) \<Rightarrow>
                    (case create_json e fs1 (valid data_split) save_json_valid of
                       (Inl err, fs2) \<Rightarrow> (Inl err, g1, fs2)
                     | (Inr _, fs2) \<Rightarrow>
                         (case create_json e fs2 (test data_split) save_json_test of
                            (res, fs3) \<Rightarrow> (res, g1, fs3))))))"

text \<open>The defaults of the signature: \<open>split_ratio=[80, 10, 10]\<close>, \<open>seed=12\<close>.\<close>

definition prepare_data_default ::
  "('g \<Rightarrow> nat \<Rightarrow> nat \<times> 'g) \<Rightarrow> (int \<Rightarrow> 'g) \<Rightarrow> env \<Rightarrow> 'g \<Rightarrow> files
     \<Rightarrow> string \<Rightarrow> string \<Rightarrow> string \<Rightarrow> string \<Rightarrow> string
     \<Rightarrow> (py_error + unit) \<times> 'g \<times> files" where
  "prepare_data_default rb seed_state e g fs data_original path_txt_info
       save_json_train save_json_valid save_json_test =
     prepare_data rb seed_state e g fs data_original path_txt_info
       save_json_train save_json_valid save_json_test [80, 10, 10] 12"

section \<open>A small corpus\<close>

text \<open>Concrete inputs, on which the theorems below are instantiated.\<close>

definition example_dict :: "(nat, wav_info list) dict" where
  "example_dict =
     [(0, [WavInfo ''d/s1/a.wav'' ''north'' ''m'']),
      (1, [WavInfo ''d/s1/b.wav'' ''north'' ''m'']),
      (2, [WavInfo ''d/s2/c.wav'' ''south'' ''f''])]"

section \<open>Properties\<close>

lemma split_from_nonempty [simp]: "split_from c cur s \<noteq> []"
  by (induction s arbitrary: cur) auto

lemma split_from_no_sep: "c \<notin> set f \<Longrightarrow> split_from c cur f = [cur @ f]"
  by (induction f arbitrary: cur) auto

lemma last_split_from_append:
  "last (split_from c cur (d @ c # f)) = last (split_from c [] f)"
  by (induction d arbitrary: cur) auto

lemma last_split_sep_no_sep: "c \<notin> set f \<Longrightarrow> last (split_sep c f) = f"
  by (simp add: split_sep_def split_from_no_sep)

lemma last_split_sep_append:
  "last (split_sep c (d @ c # f)) = last (split_sep c f)"
  by (simp add: split_sep_def last_split_from_append)

lemma filename_after_last_slash:
  "CHR ''/'' \<notin> set f \<Longrightarrow> filename (d @ CHR ''/'' # f) = f"
  by (simp add: filename_def last_split_sep_append last_split_sep_no_sep)

lemma filename_no_slash: "CHR ''/'' \<notin> set f \<Longrightarrow> filename f = f"
  by (simp add: filename_def last_split_sep_no_sep)

lemma uttid_take: "uttid p = take (length (filename p) - 4) (filename p)"
proof -
  have "nat (max 0 (int n - 4)) = n - 4" for n :: nat
    by (simp add: max_def nat_diff_distrib')
  then show ?thesis
    by (simp add: uttid_def py_slice0_def slice_stop_def)
qed

subsection \<open>Utterance IDs\<close>

text \<open>
  Claim C7, as amended. The utterance ID is the part of the path after the last \<open>/\<close>
  (the whole path when it has none) without its last four characters, whatever they are.
  For a file name \<open>stem @ ext\<close> with a non-empty stem, the ID is the stem exactly when
  \<open>ext\<close>, the dot included, has four characters: \<open>.wav\<close> and \<open>.ogg\<close> are stripped
  exactly, a longer or shorter extension gives a wrong ID.
\<close>

theorem uttid_fixed_strip:
  assumes "CHR ''/'' \<notin> set (stem @ ext)"
  shows "uttid (dir @ CHR ''/'' # stem @ ext)
           = take (length stem + length ext - 4) (stem @ ext)
         \<and> uttid (stem @ ext) = take (length stem + length ext - 4) (stem @ ext)
         \<and> (stem \<noteq> [] \<longrightarrow>
              (uttid (dir @ CHR ''/'' # stem @ ext) = stem \<longleftrightarrow> length ext = 4))"
proof -
  have f1: "filename (dir @ CHR ''/'' # stem @ ext) = stem @ ext"
    using assms by (rule filename_after_last_slash)
  have f2: "filename (stem @ ext) = stem @ ext"
    using assms by (rule filename_no_slash)
  have u1: "uttid (dir @ CHR ''/'' # stem @ ext)
              = take (length stem + length ext - 4) (stem @ ext)"
    by (simp add: uttid_take f1)
  have u2: "uttid (stem @ ext) = take (length stem + length ext - 4) (stem @ ext)"
    by (simp add: uttid_take f2)
  have iff: "take (length stem + length ext - 4) (stem @ ext) = stem \<longleftrightarrow> length ext = 4"
    if ne: "stem \<noteq> []"
  proof
    assume "take (length stem + length ext - 4) (stem @ ext) = stem"
    then have "length (take (length stem + length ext - 4) (stem @ ext)) = length stem"
      by simp
    then have "min (length stem + length ext) (length stem + length ext - 4) = length stem"
      by simp
    moreover have "0 < length stem" using ne by simp
    ultimately show "length ext = 4" by arith
  next
    assume "length ext = 4"
    then show "take (length stem + length ext - 4) (stem @ ext) = stem" by simp
  qed
  show ?thesis using u1 u2 iff by simp
qed

theorem uttid_fixed_strip_witness:
  "CHR ''/'' \<notin> set (''clip01'' @ ''.wav'')
   \<and> ''clip01'' \<noteq> []
   \<and> length ''.wav'' = 4
   \<and> uttid ''corpus/spk1/clip01.wav'' = ''clip01''
   \<and> uttid ''clip01.wav'' = ''clip01''"
  using uttid_fixed_strip [of "''clip01''" "''.wav''" "''corpus/spk1''"] by simp

text \<open>
  The claim's example fails: \<open>.ogg\<close> has four characters, so a seven-character stem
  comes back whole.
\<close>

theorem uttid_ogg_counterexample:
  "\<not> (uttid ''corpus/spk1/abcdefg.ogg'' \<noteq> ''abcdefg'')"
  by (simp add: uttid_def filename_def split_sep_def py_slice0_def slice_stop_def)

subsection \<open>The shuffle and the split\<close>

lemma lcg_randbelow_ok: "randbelow_ok lcg_randbelow"
  by (simp add: randbelow_ok_def lcg_randbelow_def Let_def nat_less_iff)

lemma list_update_numeral:
  "(x # xs)[numeral k := y] = x # xs[pred_numeral k := y]"
  by (simp add: numeral_eq_Suc)

lemma length_shuffle_from [simp]: "length (fst (shuffle_from rb m x g)) = length x"
  by (induction m arbitrary: x g) (auto split: prod.splits)

lemma length_shuffle [simp]: "length (fst (shuffle rb x g)) = length x"
  by (simp add: shuffle_def)

lemma mset_shuffle_from:
  "randbelow_ok rb \<Longrightarrow> m < length x \<or> m = 0 \<Longrightarrow> mset (fst (shuffle_from rb m x g)) = mset x"
proof (induction m arbitrary: x g)
  case 0
  then show ?case by simp
next
  case (Suc m)
  obtain j g' where rb: "rb g (Suc (Suc m)) = (j, g')" by (cases "rb g (Suc (Suc m))")
  from Suc.prems have len: "Suc m < length x" by simp
  from Suc.prems(1) have "fst (rb g (Suc (Suc m))) < Suc (Suc m)"
    by (simp add: randbelow_ok_def)
  with rb len have j: "j < length x" by simp
  have "mset (x[Suc m := x ! j, j := x ! Suc m]) = mset x"
    by (rule mset_swap [OF j len])
  moreover have "mset (fst (shuffle_from rb m (x[Suc m := x ! j, j := x ! Suc m]) g'))
      = mset (x[Suc m := x ! j, j := x ! Suc m])"
    using Suc.prems len by (intro Suc.IH) auto
  ultimately show ?case using rb by simp
qed

lemma mset_shuffle: "randbelow_ok rb \<Longrightarrow> mset (fst (shuffle rb x g)) = mset x"
  unfolding shuffle_def by (rule mset_shuffle_from) (cases x; simp)+

lemma snd_shuffle_from: "snd (shuffle_from rb m x g) = snd (shuffle_from rb m y g)"
  by (induction m arbitrary: x y g) (auto split: prod.splits)





lemma snd_shuffle: "length x = length y \<Longrightarrow> snd (shuffle rb x g) = snd (shuffle rb y g)"
  by (simp add: shuffle_def snd_shuffle_from [of rb _ x g y])

lemma collect_ok:
  "distinct (map fst d) \<Longrightarrow> [] \<notin> snd ` set d \<Longrightarrow> set ps \<subseteq> set d \<Longrightarrow>
     collect d acc (map fst ps) = Inr (acc @ map (hd \<circ> snd) ps)"
proof (induction ps arbitrary: acc)
  case Nil
  then show ?case by simp
next
  case (Cons p ps)
  obtain k v where p: "p = (k, v)" by (cases p)
  with Cons.prems have mem: "(k, v) \<in> set d" by simp
  with Cons.prems(1) have look: "map_of d k = Some v" by simp
  from mem Cons.prems(2) have "v \<noteq> []" by force
  then obtain r rs where v: "v = r # rs" by (cases v) auto
  have "collect d (acc @ [r]) (map fst ps) = Inr ((acc @ [r]) @ map (hd \<circ> snd) ps)"
    using Cons.prems by (intro Cons.IH) auto
  then show ?case using p look v by simp
qed

lemma collect_dict:
  "distinct (map fst d) \<Longrightarrow> [] \<notin> snd ` set d \<Longrightarrow>
     collect d [] (dict_keys d) = Inr (map (hd \<circ> snd) d)"
  using collect_ok [of d d "[]"] by (simp add: dict_keys_def)

lemma split_sets_collected:
  "collect d [] (dict_keys d) = Inr wav_list \<Longrightarrow>
     split_sets rb g d split_ratio
       = (split_list split_ratio (fst (shuffle rb wav_list g)), snd (shuffle rb wav_list g))"
  by (simp add: split_sets_def split: prod.splits)

lemma take_split_ok:
  "i < length split_ratio \<Longrightarrow> tot_split \<noteq> 0 \<Longrightarrow>
     take_split split_ratio tot_split tot_snts i wl
       = Inr (py_slice0 wl (trunc_quot (int tot_snts * split_ratio ! i) tot_split),
              py_del0 wl (trunc_quot (int tot_snts * split_ratio ! i) tot_split))"
  by (simp add: take_split_def int_truediv_def)

lemma slice_del_id: "py_slice0 wl n @ py_del0 wl n = wl"
  by (simp add: py_slice0_def py_del0_def)

lemma split_list_explicit:
  assumes len: "2 \<le> length split_ratio" and nz: "sum_list split_ratio \<noteq> 0"
  shows "split_list split_ratio wl =
     Inr \<lparr>train = py_slice0 wl (trunc_quot (int (length wl) * split_ratio ! 0) (sum_list split_ratio)),
          valid = py_slice0
            (py_del0 wl (trunc_quot (int (length wl) * split_ratio ! 0) (sum_list split_ratio)))
            (trunc_quot (int (length wl) * split_ratio ! 1) (sum_list split_ratio)),
          test = py_del0
            (py_del0 wl (trunc_quot (int (length wl) * split_ratio ! 0) (sum_list split_ratio)))
            (trunc_quot (int (length wl) * split_ratio ! 1) (sum_list split_ratio))\<rparr>"
proof -
  from len have i0: "0 < length split_ratio" and i1: "1 < length split_ratio" by linarith+
  show ?thesis
    unfolding split_list_def Let_def take_split_ok [OF i0 nz] take_split_ok [OF i1 nz]
    by simp
qed


lemma trunc_quot_nonneg: "0 \<le> a \<Longrightarrow> 0 < b \<Longrightarrow> trunc_quot a b = a div b"
  by (cases "a = 0") (simp_all add: trunc_quot_def)

lemma length_py_slice0_nonneg:
  "0 \<le> n \<Longrightarrow> n \<le> int (length wl) \<Longrightarrow> int (length (py_slice0 wl n)) = n"
  by (simp add: py_slice0_def slice_stop_def)

lemma length_py_del0_nonneg:
  "0 \<le> n \<Longrightarrow> n \<le> int (length wl) \<Longrightarrow> int (length (py_del0 wl n)) = int (length wl) - n"
  by (simp add: py_del0_def slice_stop_def)

lemma mult_div_le_int:
  fixes a s :: int
  assumes "0 < s"
  shows "s * (a div s) \<le> a"
proof -
  have "s * (a div s) + a mod s = a" by (rule mult_div_mod_eq)
  moreover have "0 \<le> a mod s" using assms by (rule pos_mod_sign)
  ultimately show ?thesis by linarith
qed

lemma div_le_of_le_mult:
  fixes a N s :: int
  assumes "a \<le> N * s" "0 < s"
  shows "a div s \<le> N"
proof -
  have "a div s \<le> N * s div s" using assms by (rule zdiv_mono1)
  also have "N * s div s = N" using assms by simp
  finally show ?thesis .
qed

lemma ratio_share_le:
  fixes N r s :: int
  assumes "0 \<le> N" "0 \<le> r" "r \<le> s" "0 < s"
  shows "0 \<le> N * r div s" and "N * r div s \<le> N"
proof -
  show "0 \<le> N * r div s" using assms by (simp add: pos_imp_zdiv_nonneg_iff)
  have "N * r \<le> N * s" using assms by (simp add: mult_left_mono)
  then show "N * r div s \<le> N" using assms by (intro div_le_of_le_mult)
qed

lemma ratio_shares_le:
  fixes N r1 r2 s :: int
  assumes "0 \<le> N" "0 \<le> r1" "0 \<le> r2" "r1 + r2 \<le> s" "0 < s"
  shows "N * r1 div s + N * r2 div s \<le> N"
proof -
  have a: "s * (N * r1 div s) \<le> N * r1" using assms by (intro mult_div_le_int)
  have b: "s * (N * r2 div s) \<le> N * r2" using assms by (intro mult_div_le_int)
  have "N * r1 + N * r2 = N * (r1 + r2)" by (simp add: distrib_left)
  also have "\<dots> \<le> N * s" using assms by (simp add: mult_left_mono)
  finally have "s * (N * r1 div s + N * r2 div s) \<le> s * N"
    using a b by (simp add: distrib_left mult.commute)
  then show ?thesis using assms by simp
qed

subsection \<open>The splitter partitions its input\<close>

lemma split_sets_wellformed:
  assumes keys: "distinct (map fst data_dict)" and vals: "[] \<notin> snd ` set data_dict"
  shows "split_sets rb g data_dict split_ratio
       = (split_list split_ratio (fst (shuffle rb (map (hd \<circ> snd) data_dict) g)),
          snd (shuffle rb (map (hd \<circ> snd) data_dict) g))"
  by (rule split_sets_collected [OF collect_dict [OF keys vals]])



subsection \<open>Running the splitter\<close>

lemmas split_list_eval = split_list_def take_split_def int_truediv_def trunc_quot_def
  py_slice0_def py_del0_def slice_stop_def

lemma example_dict_wellformed:
  "distinct (map fst example_dict)" "[] \<notin> snd ` set example_dict"
  by (simp_all add: example_dict_def)

lemma example_shuffle:
  "shuffle lcg_randbelow (map (hd \<circ> snd) example_dict) 12
     = ([WavInfo ''d/s1/b.wav'' ''north'' ''m'', WavInfo ''d/s2/c.wav'' ''south'' ''f'',
         WavInfo ''d/s1/a.wav'' ''north'' ''m''], 1937462122)"
  by (simp add: example_dict_def shuffle_def lcg_randbelow_def Let_def list_update_numeral)

lemma example_split_sets:
  "split_sets lcg_randbelow 12 example_dict split_ratio
     = (split_list split_ratio
          [WavInfo ''d/s1/b.wav'' ''north'' ''m'', WavInfo ''d/s2/c.wav'' ''south'' ''f'',
           WavInfo ''d/s1/a.wav'' ''north'' ''m''], 1937462122)"
  by (simp add: split_sets_wellformed [OF example_dict_wellformed] example_shuffle)


subsection \<open>Sizes of the splits\<close>

text \<open>
  Claim C2, as amended. For \<open>N\<close> records and a ratio vector of three entries, none
  negative, with a positive sum, \<open>split_sets\<close> returns with
  \<open>len(train) = floor(N * r_train / sum)\<close>, \<open>len(valid) = floor(N * r_valid / sum)\<close>
  and test holding the remaining \<open>N - len(train) - len(valid)\<close> records. A zero entry
  gives an empty split; with \<open>r_train = r_valid = 0\<close> the test split is the whole
  shuffled input.
\<close>

theorem split_sets_lengths:
  assumes keys: "distinct (map fst data_dict)"
    and vals: "[] \<notin> snd ` set data_dict"
    and ratio: "split_ratio = [r_train, r_valid, r_test]"
    and nonneg: "0 \<le> r_train" "0 \<le> r_valid" "0 \<le> r_test"
    and pos: "0 < r_train + r_valid + r_test"
  shows "\<exists>ds. fst (split_sets rb g data_dict split_ratio) = Inr ds
     \<and> int (length (train ds))
          = int (length data_dict) * r_train div (r_train + r_valid + r_test)
     \<and> int (length (valid ds))
          = int (length data_dict) * r_valid div (r_train + r_valid + r_test)
     \<and> length (test ds) = length data_dict - length (train ds) - length (valid ds)
     \<and> length (train ds) + length (valid ds) + length (test ds) = length data_dict
     \<and> (r_train = 0 \<longrightarrow> train ds = [])
     \<and> (r_valid = 0 \<longrightarrow> valid ds = [])
     \<and> (r_train = 0 \<and> r_valid = 0 \<longrightarrow>
           test ds = fst (shuffle rb (map (hd \<circ> snd) data_dict) g))
     \<and> (r_train = 0 \<and> r_valid = 0 \<and> randbelow_ok rb \<longrightarrow>
           mset (test ds) = mset (map (hd \<circ> snd) data_dict))"
proof -
  let ?recs = "map (hd \<circ> snd) data_dict"
  let ?wl = "fst (shuffle rb ?recs g)"
  let ?N = "int (length data_dict)"
  let ?s = "r_train + r_valid + r_test"
  let ?n1 = "?N * r_train div ?s"
  let ?n2 = "?N * r_valid div ?s"
  have lwl: "length ?wl = length data_dict" by simp
  have sum: "sum_list split_ratio = ?s" by (simp add: ratio)
  have len2: "2 \<le> length split_ratio" by (simp add: ratio)
  have nz: "sum_list split_ratio \<noteq> 0" using pos sum by simp
  have r0: "split_ratio ! 0 = r_train" and r1: "split_ratio ! 1 = r_valid"
    by (simp_all add: ratio)
  have q1: "trunc_quot (int (length ?wl) * split_ratio ! 0) (sum_list split_ratio) = ?n1"
    unfolding sum r0 lwl using nonneg pos by (intro trunc_quot_nonneg) simp_all
  have q2: "trunc_quot (int (length ?wl) * split_ratio ! 1) (sum_list split_ratio) = ?n2"
    unfolding sum r1 lwl using nonneg pos by (intro trunc_quot_nonneg) simp_all
  define ds where "ds = \<lparr>train = py_slice0 ?wl ?n1,
      valid = py_slice0 (py_del0 ?wl ?n1) ?n2, test = py_del0 (py_del0 ?wl ?n1) ?n2\<rparr>"
  have sl: "split_list split_ratio ?wl = Inr ds"
    unfolding ds_def using split_list_explicit [OF len2 nz, of ?wl] by (simp only: q1 q2)
  have res: "fst (split_sets rb g data_dict split_ratio) = Inr ds"
    by (simp add: split_sets_wellformed [OF keys vals] sl)
  have n1: "0 \<le> ?n1" "?n1 \<le> ?N"
    using ratio_share_le [of ?N r_train ?s] nonneg pos by simp_all
  have n2: "0 \<le> ?n2" "?n2 \<le> ?N"
    using ratio_share_le [of ?N r_valid ?s] nonneg pos by simp_all
  have n12: "?n1 + ?n2 \<le> ?N"
    using ratio_shares_le [of ?N r_train r_valid ?s] nonneg pos by simp
  have ltr: "int (length (train ds)) = ?n1"
    unfolding ds_def using n1 by (simp add: length_py_slice0_nonneg)
  have lrest: "int (length (py_del0 ?wl ?n1)) = ?N - ?n1"
    using n1 by (simp add: length_py_del0_nonneg)
  have lva: "int (length (valid ds)) = ?n2"
    unfolding ds_def using n2 n12 lrest by (simp add: length_py_slice0_nonneg)
  have lte: "int (length (test ds)) = ?N - ?n1 - ?n2"
    unfolding ds_def using n2 n12 lrest by (simp add: length_py_del0_nonneg)
  have tot: "length (train ds) + length (valid ds) + length (test ds) = length data_dict"
    using ltr lva lte by linarith
  have rem: "length (test ds) = length data_dict - length (train ds) - length (valid ds)"
    using tot by linarith
  have e1: "train ds = []" if "r_train = 0"
    using ltr that by simp
  have e2: "valid ds = []" if "r_valid = 0"
    using lva that by simp
  have cat: "train ds @ valid ds @ test ds = ?wl"
    unfolding ds_def by (simp only: data_split.simps slice_del_id)
  have e3: "test ds = ?wl" if "r_train = 0 \<and> r_valid = 0"
    using cat e1 e2 that by simp
  have e4: "mset (test ds) = mset ?recs" if "r_train = 0 \<and> r_valid = 0 \<and> randbelow_ok rb"
    using e3 that mset_shuffle [of rb ?recs g] by simp
  from res ltr lva rem tot e1 e2 e3 e4 show ?thesis by blast
qed

theorem split_sets_lengths_witness:
  "distinct (map fst example_dict) \<and> [] \<notin> snd ` set example_dict
   \<and> (0::int) \<le> 0 \<and> (0::int) \<le> 10 \<and> (0::int) < 0 + 0 + 10 \<and> randbelow_ok lcg_randbelow
   \<and> (\<exists>ds. fst (split_sets lcg_randbelow 12 example_dict [0, 0, 10]) = Inr ds
        \<and> train ds = [] \<and> valid ds = [] \<and> length (test ds) = 3
        \<and> mset (test ds) = mset (map (hd \<circ> snd) example_dict))"
proof -
  have h1: "distinct (map fst example_dict)" and h2: "[] \<notin> snd ` set example_dict"
    by (rule example_dict_wellformed)+
  have h3: "[0, 0, 10] = [0, 0, 10 :: int]" by simp
  have h4: "(0::int) \<le> 0" and h5: "(0::int) \<le> 10" and h6: "(0::int) < 0 + 0 + 10"
    by simp_all
  have h7: "randbelow_ok lcg_randbelow" by (rule lcg_randbelow_ok)
  have n: "length example_dict = 3" by (simp add: example_dict_def)
  obtain ds where "fst (split_sets lcg_randbelow 12 example_dict [0, 0, 10]) = Inr ds"
    and "length (test ds) = length example_dict - length (train ds) - length (valid ds)"
    and "train ds = []" and "valid ds = []"
    and "mset (test ds) = mset (map (hd \<circ> snd) example_dict)"
    using split_sets_lengths [OF h1 h2 h3 h4 h4 h5 h6, of lcg_randbelow 12] h7 by blast
  then show ?thesis using h1 h2 h4 h5 h6 h7 n by auto
qed

text \<open>
  The claim as stated fails for a positive-summing vector with a negative entry:
  \<open>[3, 3, -5]\<close> sums to 1, so \<open>n_snts = int(3 * 3 / 1) = 9\<close> for three records, and
  the slice \<open>wav_list[0:9]\<close> holds three.
\<close>

theorem split_sets_lengths_counterexample:
  "split_sets lcg_randbelow 12 example_dict [3, 3, - 5] =
     (Inr \<lparr>train = [WavInfo ''d/s1/b.wav'' ''north'' ''m'',
                    WavInfo ''d/s2/c.wav'' ''south'' ''f'',
                    WavInfo ''d/s1/a.wav'' ''north'' ''m''],
           valid = [], test = []\<rparr>, 1937462122)
   \<and> 0 < sum_list [3, 3, - 5 :: int]
   \<and> int (length [WavInfo ''d/s1/b.wav'' ''north'' ''m'',
                    WavInfo ''d/s2/c.wav'' ''south'' ''f'',
                    WavInfo ''d/s1/a.wav'' ''north'' ''m''])
       \<noteq> int (length example_dict) * 3 div sum_list [3, 3, - 5]"
  by (simp add: example_split_sets split_list_eval) (simp add: example_dict_def)

end
